theory Spec2Isabelle
  imports Main
begin

section \<open>Text: the Python string methods used by the program\<close>

text \<open>
  Text is modelled as \<^typ>\<open>string\<close> over ASCII. \<open>str.strip()\<close> removes leading and
  trailing characters for which \<open>str.isspace()\<close> holds (tab, line feed, vertical tab,
  form feed, carriage return, the four separators 0x1C..0x1F and the space);
  \<open>str.lower()\<close> maps the letters A..Z to a..z.
\<close>

definition whitespace :: "char list" where
  "whitespace = [CHR 0x09, CHR 0x0A, CHR 0x0B, CHR 0x0C, CHR 0x0D,
                 CHR 0x1C, CHR 0x1D, CHR 0x1E, CHR 0x1F, CHR '' '']"

definition isspace :: "char \<Rightarrow> bool" where
  "isspace c = (c \<in> set whitespace)"

definition strip :: "string \<Rightarrow> string" where
  "strip s = rev (dropWhile isspace (rev (dropWhile isspace s)))"

definition upper_letters :: string where
  "upper_letters = ''ABCDEFGHIJKLMNOPQRSTUVWXYZ''"

definition lower_letters :: string where
  "lower_letters = ''abcdefghijklmnopqrstuvwxyz''"

definition lower_char :: "char \<Rightarrow> char" where
  "lower_char c = (case map_of (zip upper_letters lower_letters) c of None \<Rightarrow> c | Some d \<Rightarrow> d)"

definition lower :: "string \<Rightarrow> string" where
  "lower s = map lower_char s"

subsection \<open>Decimal notation: \<open>str(int)\<close> and integer literals\<close>

definition digits :: string where
  "digits = ''0123456789''"

definition isdigit :: "char \<Rightarrow> bool" where
  "isdigit c = (c \<in> set digits)"

definition digit_char :: "nat \<Rightarrow> char" where
  "digit_char d = digits ! d"

definition digit_val :: "char \<Rightarrow> nat" where
  "digit_val c = (case map_of (zip digits [0 ..< 10]) c of None \<Rightarrow> 0 | Some d \<Rightarrow> d)"

fun show_nat :: "nat \<Rightarrow> string" where
  "show_nat n = (if n < 10 then [digit_char n] else show_nat (n div 10) @ [digit_char (n mod 10)])"

declare show_nat.simps [simp del]

definition show_int :: "int \<Rightarrow> string" where
  "show_int i = (if i < 0 then CHR ''-'' # show_nat (nat (- i)) else show_nat (nat i))"

definition nat_of_digits :: "string \<Rightarrow> nat" where
  "nat_of_digits ds = foldl (\<lambda>a c. 10 * a + digit_val c) 0 ds"

definition parse_digits :: "string \<Rightarrow> nat option" where
  "parse_digits ds = (if ds \<noteq> [] \<and> list_all isdigit ds then Some (nat_of_digits ds) else None)"

text \<open>An integer literal as the CSV reader accepts it: an optional sign, then digits.\<close>

definition parse_int :: "string \<Rightarrow> int option" where
  "parse_int s =
     (case s of
        [] \<Rightarrow> None
      | c # ds \<Rightarrow>
          if c = CHR ''-'' then map_option (\<lambda>n. - int n) (parse_digits ds)
          else if c = CHR ''+'' then map_option int (parse_digits ds)
          else map_option int (parse_digits s))"

section \<open>Tables: pandas values, columns and frames\<close>

text \<open>
  A cell of a \<open>DataFrame\<close>: a missing value (\<open>NaN\<close>/\<open>None\<close>), an \<open>int64\<close>, a
  \<open>float64\<close> or a Python \<open>str\<close>. The only floats this program meets are the ones the
  reader produces for an integer column with missing entries, so a float carries
  the integer it stands for (\<open>FloatV 3\<close> is \<open>3.0\<close>).
\<close>

datatype cell = NaN | IntV int | FloatV int | StrV string

datatype dtype = Int64 | Float64 | Object

record series =
  dtype :: dtype
  vals :: "cell list"

record dataframe =
  cols :: "(string \<times> series) list"
  nrows :: nat

datatype error =
    FileNotFoundError
  | EmptyDataError
  | ParserError
  | KeyError string
  | AttributeError
  | ValueError
  | TypeError
  | OverflowError

text \<open>
  A file holding a table is the list of its records, the header first, each record
  the list of its fields as text; quoting and escaping of delimiters inside a field
  are below this level. A file of zero bytes is the empty list.
\<close>

type_synonym csv = "string list list"

subsection \<open>\<open>pd.read_csv\<close>\<close>

text \<open>The reader's default markers of a missing value.\<close>

definition na_values :: "string list" where
  "na_values = ['''', ''#N/A'', ''#N/A N/A'', ''#NA'', ''-1.#IND'', ''-1.#QNAN'', ''-NaN'',
                ''-nan'', ''1.#IND'', ''1.#QNAN'', ''<NA>'', ''N/A'', ''NA'', ''NULL'', ''NaN'',
                ''None'', ''n/a'', ''nan'', ''null'']"

definition is_na :: "string \<Rightarrow> bool" where
  "is_na f = (f \<in> set na_values)"

text \<open>A number: an integer literal, or an integer literal followed by \<open>.0\<close>.\<close>

definition parse_number :: "string \<Rightarrow> int option" where
  "parse_number s =
     (case parse_int s of
        Some n \<Rightarrow> Some n
      | None \<Rightarrow>
          if 2 \<le> length s \<and> drop (length s - 2) s = ''.0''
          then parse_int (take (length s - 2) s) else None)"

definition int_cell :: "string \<Rightarrow> cell" where
  "int_cell f = (case parse_int f of Some n \<Rightarrow> IntV n | None \<Rightarrow> NaN)"

definition float_cell :: "string \<Rightarrow> cell" where
  "float_cell f = (if is_na f then NaN else case parse_number f of Some n \<Rightarrow> FloatV n | None \<Rightarrow> NaN)"

definition str_cell :: "string \<Rightarrow> cell" where
  "str_cell f = (if is_na f then NaN else StrV f)"

text \<open>
  Type inference for one column, from the fields of its records: a column with no
  record is \<open>object\<close>; all integer literals give \<open>int64\<close>; numbers and missing
  values give \<open>float64\<close>; anything else leaves the column \<open>object\<close>, each field kept
  as the text it is, missing where it is a marker.
\<close>

text \<open>
  An \<open>int64\<close> holds the integers from \<open>-2^63\<close> to \<open>2^63 - 1\<close>, and arithmetic on it
  wraps around. A \<open>float64\<close> holds every integer below \<open>2^53\<close> in absolute value
  exactly, and writes it with \<open>.0\<close> at the end; minus zero is a float of its own.
\<close>

definition in_int64 :: "int \<Rightarrow> bool" where
  "in_int64 n = (- (2 ^ 63) \<le> n \<and> n < 2 ^ 63)"

definition wrap64 :: "int \<Rightarrow> int" where
  "wrap64 n = (n + 2 ^ 63) mod 2 ^ 64 - 2 ^ 63"

definition exact_float :: "int \<Rightarrow> bool" where
  "exact_float n = (- (2 ^ 53) < n \<and> n < 2 ^ 53)"

text \<open>
  The numerals the model reads as numbers: an integer literal that fits an
  \<open>int64\<close>, and, in a column that is not all integers, an integer literal or an
  integer literal followed by \<open>.0\<close> whose value a float holds exactly, minus zero
  apart. The reader of pandas knows more numerals (blanks around a number, a
  fraction, an exponent, infinities, integers beyond \<open>int64\<close>) and, in a column of
  nothing else, the truth values; the model keeps such a field as the text it is,
  and the statements below that depend on a column being text ask for a field in
  it that no reader takes for a number or a truth value (\<open>plain\<close>).
\<close>

definition is_int_literal :: "string \<Rightarrow> bool" where
  "is_int_literal f = (case parse_int f of None \<Rightarrow> False | Some n \<Rightarrow> in_int64 n)"

definition is_number :: "string \<Rightarrow> bool" where
  "is_number f =
     (case parse_number f of
        None \<Rightarrow> False
      | Some n \<Rightarrow> exact_float n \<and> (if n = 0 then hd f \<noteq> CHR ''-'' else True))"

definition infer_column :: "string list \<Rightarrow> series" where
  "infer_column fs =
     (if fs = [] then \<lparr>dtype = Object, vals = []\<rparr>
      else if list_all is_int_literal fs then \<lparr>dtype = Int64, vals = map int_cell fs\<rparr>
      else if list_all (\<lambda>f. is_na f \<or> is_number f) fs
        then \<lparr>dtype = Float64, vals = map float_cell fs\<rparr>
      else \<lparr>dtype = Object, vals = map str_cell fs\<rparr>)"

text \<open>A record shorter than the others is filled with missing fields.\<close>

definition field :: "string list \<Rightarrow> nat \<Rightarrow> string" where
  "field r j = (if j < length r then r ! j else [])"

text \<open>
  The first record sets the width of the table. When it has more fields than the
  header has names, the reader takes its extra leading fields, and those of every
  other record, as the index of the frame: the names of the header then belong to
  the fields after them.
\<close>

definition leading_cols :: "string list \<Rightarrow> string list list \<Rightarrow> nat" where
  "leading_cols header records = (case records of [] \<Rightarrow> 0 | r # rs \<Rightarrow> length r - length header)"

text \<open>
  A record with more fields than the width raises; the frame keeps the columns
  that have a name. The index is not kept: nothing in the program reads it, and
  every \<open>to_csv\<close> of the program is called with \<open>index=False\<close>.
\<close>

definition read_csv :: "csv \<Rightarrow> error + dataframe" where
  "read_csv f =
     (case f of
        [] \<Rightarrow> Inl EmptyDataError
      | header # records \<Rightarrow>
          let k = leading_cols header records in
          if list_ex (\<lambda>r. length header + k < length r) records then Inl ParserError
          else Inr \<lparr>cols = map (\<lambda>j. (header ! j, infer_column (map (\<lambda>r. field r (k + j)) records)))
                              [0 ..< length header],
                    nrows = length records\<rparr>)"

subsection \<open>\<open>DataFrame.to_csv(index=False)\<close>\<close>

definition render :: "cell \<Rightarrow> string" where
  "render c = (case c of NaN \<Rightarrow> '''' | IntV n \<Rightarrow> show_int n
                | FloatV n \<Rightarrow> show_int n @ ''.0'' | StrV s \<Rightarrow> s)"

definition df_columns :: "dataframe \<Rightarrow> string list" where
  "df_columns df = map fst (cols df)"

definition df_records :: "dataframe \<Rightarrow> string list list" where
  "df_records df = map (\<lambda>i. map (\<lambda>(n, s). render (vals s ! i)) (cols df)) [0 ..< nrows df]"

definition to_csv :: "dataframe \<Rightarrow> csv" where
  "to_csv df = df_columns df # df_records df"

subsection \<open>Frame and column operations\<close>

text \<open>An exception raised inside a \<open>try\<close> block skips the rest of the block.\<close>

definition raising :: "error + 'a \<Rightarrow> ('a \<Rightarrow> error + 'b) \<Rightarrow> error + 'b" where
  "raising r k = (case r of Inl e \<Rightarrow> Inl e | Inr x \<Rightarrow> k x)"

text \<open>\<open>df.empty\<close>: some axis has length zero.\<close>

definition df_empty :: "dataframe \<Rightarrow> bool" where
  "df_empty df = (cols df = [] \<or> nrows df = 0)"

text \<open>\<open>df[name]\<close>\<close>

definition getcol :: "dataframe \<Rightarrow> string \<Rightarrow> error + series" where
  "getcol df name = (case map_of (cols df) name of None \<Rightarrow> Inl (KeyError name) | Some s \<Rightarrow> Inr s)"

text \<open>\<open>df[name] = None\<close>: a column of missing values, replacing or appended at the end.\<close>

definition set_none :: "dataframe \<Rightarrow> string \<Rightarrow> dataframe" where
  "set_none df name =
     (let s = \<lparr>dtype = Object, vals = replicate (nrows df) NaN\<rparr> in
      if name \<in> set (df_columns df)
      then df\<lparr>cols := map (\<lambda>(n, c). if n = name then (n, s) else (n, c)) (cols df)\<rparr>
      else df\<lparr>cols := cols df @ [(name, s)]\<rparr>)"

text \<open>\<open>series == text\<close>, element by element.\<close>

definition eq_str :: "series \<Rightarrow> string \<Rightarrow> bool list" where
  "eq_str s x = map (\<lambda>c. c = StrV x) (vals s)"

text \<open>\<open>df[keep]\<close>, for a boolean column \<open>keep\<close>\<close>

definition df_filter :: "bool list \<Rightarrow> dataframe \<Rightarrow> dataframe" where
  "df_filter keep df =
     \<lparr>cols = map (\<lambda>(n, s). (n, s\<lparr>vals := map snd (filter fst (zip keep (vals s)))\<rparr>)) (cols df),
      nrows = length (filter id keep)\<rparr>"

text \<open>\<open>df.any().any()\<close>: some column holds a value that counts as true; missing values are skipped.\<close>

definition truthy :: "cell \<Rightarrow> bool" where
  "truthy c = (case c of NaN \<Rightarrow> False | IntV n \<Rightarrow> n \<noteq> 0 | FloatV n \<Rightarrow> n \<noteq> 0 | StrV s \<Rightarrow> s \<noteq> [])"

definition df_any_any :: "dataframe \<Rightarrow> bool" where
  "df_any_any df = list_ex (\<lambda>(n, s). list_ex truthy (vals s)) (cols df)"

text \<open>\<open>series.str.strip()\<close>, \<open>series.str.lower()\<close>: the accessor exists on text columns only.\<close>

definition str_map :: "(string \<Rightarrow> string) \<Rightarrow> series \<Rightarrow> error + series" where
  "str_map g s =
     (if dtype s = Object
      then Inr \<lparr>dtype = Object, vals = map (\<lambda>c. case c of StrV x \<Rightarrow> StrV (g x) | _ \<Rightarrow> NaN) (vals s)\<rparr>
      else Inl AttributeError)"

text \<open>\<open>series.astype(str)\<close>\<close>

definition py_str :: "cell \<Rightarrow> string" where
  "py_str c = (case c of NaN \<Rightarrow> ''nan'' | IntV n \<Rightarrow> show_int n
                | FloatV n \<Rightarrow> show_int n @ ''.0'' | StrV s \<Rightarrow> s)"

definition astype_str :: "series \<Rightarrow> series" where
  "astype_str s = \<lparr>dtype = Object, vals = map (\<lambda>c. StrV (py_str c)) (vals s)\<rparr>"

text \<open>
  \<open>int(text)\<close>: whitespace around it is ignored; then a sign may come, then digits,
  which single underscores may separate.
\<close>

definition int_of_text :: "string \<Rightarrow> int option" where
  "int_of_text s =
     (let t = strip s;
          signed = (t \<noteq> [] \<and> (hd t = CHR ''-'' \<or> hd t = CHR ''+''));
          body = (if signed then tl t else t)
      in if body \<noteq> [] \<and> isdigit (hd body) \<and> isdigit (last body)
            \<and> list_all (\<lambda>c. isdigit c \<or> c = CHR ''_'') body
            \<and> list_all (\<lambda>(a, b). a = CHR ''_'' \<and> b \<noteq> CHR ''_'' \<or> a \<noteq> CHR ''_'') (zip body (tl body))
         then Some ((if hd t = CHR ''-'' then - 1 else 1) * int (nat_of_digits (filter isdigit body)))
         else None)"

text \<open>
  \<open>series.astype(int)\<close>: a missing value cannot be converted; text goes through
  \<open>int(text)\<close>; a number outside \<open>int64\<close> does not fit the column.
\<close>

definition py_int :: "cell \<Rightarrow> int option" where
  "py_int c = (case c of NaN \<Rightarrow> None | IntV n \<Rightarrow> Some n | FloatV n \<Rightarrow> Some n
                | StrV s \<Rightarrow> int_of_text s)"

definition astype_int :: "series \<Rightarrow> error + series" where
  "astype_int s =
     (if list_all (\<lambda>c. \<not> Option.is_none (py_int c)) (vals s)
      then if list_all (\<lambda>c. case py_int c of Some n \<Rightarrow> in_int64 n | None \<Rightarrow> True) (vals s)
           then Inr \<lparr>dtype = Int64,
                     vals = map (\<lambda>c. case py_int c of Some n \<Rightarrow> IntV n | None \<Rightarrow> NaN) (vals s)\<rparr>
           else Inl OverflowError
      else Inl ValueError)"

text \<open>
  \<open>series.max() + 1\<close>: the largest value present, missing values skipped, plus one;
  missing when nothing is present; text cannot be added to a number.
\<close>

definition numbers :: "cell list \<Rightarrow> int list" where
  "numbers cs = concat (map (\<lambda>c. case c of IntV n \<Rightarrow> [n] | FloatV n \<Rightarrow> [n] | _ \<Rightarrow> []) cs)"

definition max_plus_1 :: "series \<Rightarrow> error + cell" where
  "max_plus_1 s =
     (case dtype s of
        Object \<Rightarrow> Inl TypeError
      | Int64 \<Rightarrow> (case numbers (vals s) of [] \<Rightarrow> Inr NaN
                  | n # ns \<Rightarrow> Inr (IntV (wrap64 (fold max ns n + 1))))
      | Float64 \<Rightarrow> (case numbers (vals s) of [] \<Rightarrow> Inr NaN | n # ns \<Rightarrow> Inr (FloatV (fold max ns n + 1))))"

text \<open>\<open>pd.DataFrame([{...}])\<close>: one row, the columns in the order of the dictionary.\<close>

definition cell_dtype :: "cell \<Rightarrow> dtype" where
  "cell_dtype c = (case c of IntV n \<Rightarrow> Int64 | FloatV n \<Rightarrow> Float64 | _ \<Rightarrow> Object)"

definition DataFrame :: "(string \<times> cell) list \<Rightarrow> dataframe" where
  "DataFrame d = \<lparr>cols = map (\<lambda>(k, v). (k, \<lparr>dtype = cell_dtype v, vals = [v]\<rparr>)) d, nrows = 1\<rparr>"

section \<open>The store\<close>

datatype file_path = USERS_FILE | COURSES_FILE | ASSIGNMENTS_FILE | SUBMISSIONS_FILE

type_synonym store = "file_path \<Rightarrow> csv option"

definition REQUIRED_STRUCTURE :: "(file_path \<times> string list) list" where
  "REQUIRED_STRUCTURE =
     [(USERS_FILE, [''user_id'', ''username'', ''password'', ''role'', ''created_at'']),
      (COURSES_FILE, [''course_id'', ''course_name'', ''description'', ''instructor'',
                      ''schedule'', ''created_at'', ''enrollment_status'',
                      ''image_path'', ''youtube_link'']),
      (ASSIGNMENTS_FILE, [''assignment_id'', ''course_id'', ''title'', ''description'',
                          ''due_date'', ''max_points'', ''created_at'']),
      (SUBMISSIONS_FILE, [''submission_id'', ''assignment_id'', ''student_username'',
                          ''submission_date'', ''status'', ''grade'', ''feedback''])]"

definition read_file :: "store \<Rightarrow> file_path \<Rightarrow> error + dataframe" where
  "read_file st fp = (case st fp of None \<Rightarrow> Inl FileNotFoundError | Some f \<Rightarrow> read_csv f)"

text \<open>\<open>df.to_csv(fp, index=False)\<close> replaces the file.\<close>

definition write_file :: "file_path \<Rightarrow> dataframe \<Rightarrow> store \<Rightarrow> store" where
  "write_file fp df st = st(fp := Some (to_csv df))"

text \<open>
  \<open>df.to_csv(fp, mode='a', header=h, index=False)\<close> adds the records of \<open>df\<close> at the
  end of the file, its fields in the order of the columns of \<open>df\<close>, whatever the
  header of the file is.
\<close>

definition append_file :: "file_path \<Rightarrow> dataframe \<Rightarrow> bool \<Rightarrow> store \<Rightarrow> store" where
  "append_file fp df h st =
     st(fp := Some ((case st fp of None \<Rightarrow> [] | Some f \<Rightarrow> f) @ (if h then to_csv df else df_records df)))"

section \<open>System initialization\<close>

text \<open>
  One turn of the loop of \<open>initialize_system\<close> over \<open>REQUIRED_STRUCTURE\<close>: a missing
  file is created with the required header and no record; an existing one is read,
  and rewritten with the missing columns added, each holding missing values, when
  there are any.
\<close>

definition missing_cols :: "string list \<Rightarrow> dataframe \<Rightarrow> string list" where
  "missing_cols columns df = filter (\<lambda>col. col \<notin> set (df_columns df)) columns"

definition ensure_file :: "file_path \<Rightarrow> string list \<Rightarrow> store \<Rightarrow> error + store" where
  "ensure_file fp columns st =
     (case st fp of
        None \<Rightarrow> Inr (st(fp := Some [columns]))
      | Some f \<Rightarrow>
          raising (read_csv f) (\<lambda>df.
            if missing_cols columns df \<noteq> []
            then Inr (write_file fp (foldl set_none df (missing_cols columns df)) st)
            else Inr st))"

text \<open>The loop; an exception leaves the files as they are at that moment.\<close>

fun ensure_all :: "(file_path \<times> string list) list \<Rightarrow> store \<Rightarrow> store \<times> error option" where
  "ensure_all [] st = (st, None)"
| "ensure_all ((fp, columns) # rest) st =
     (case ensure_file fp columns st of
        Inl e \<Rightarrow> (st, Some e)
      | Inr st' \<Rightarrow> ensure_all rest st')"

text \<open>
  The default administrator; \<open>now\<close> is the text of \<open>datetime.now().strftime(...)\<close>.
\<close>

definition new_admin :: "string \<Rightarrow> dataframe" where
  "new_admin now =
     DataFrame [(''user_id'', IntV 1), (''username'', StrV ''admin''),
                (''password'', StrV ''admin123''), (''role'', StrV ''admin''),
                (''created_at'', StrV now)]"

definition create_default_admin :: "string \<Rightarrow> store \<Rightarrow> error + store" where
  "create_default_admin now st =
     raising (read_file st USERS_FILE) (\<lambda>users.
       if df_empty users
       then Inr (append_file USERS_FILE (new_admin now) (st USERS_FILE = None) st)
       else raising (getcol users ''role'') (\<lambda>r.
         if \<not> df_any_any (df_filter (eq_str r ''admin'') users)
         then Inr (append_file USERS_FILE (new_admin now) (st USERS_FILE = None) st)
         else Inr st))"

text \<open>
  \<open>initialize_system\<close> returns the files it leaves and, when an exception stopped
  it, the exception shown by \<open>st.error\<close> before \<open>st.stop()\<close>.
\<close>

definition initialize_system :: "string \<Rightarrow> store \<Rightarrow> store \<times> error option" where
  "initialize_system now st =
     (case ensure_all REQUIRED_STRUCTURE st of
        (st1, Some e) \<Rightarrow> (st1, Some e)
      | (st1, None) \<Rightarrow>
          (case create_default_admin now st1 of
             Inl e \<Rightarrow> (st1, Some e)
           | Inr st2 \<Rightarrow> (st2, None)))"

section \<open>Authentication\<close>

definition and_masks :: "bool list \<Rightarrow> bool list \<Rightarrow> bool list" where
  "and_masks xs ys = map (\<lambda>(x, y). x \<and> y) (zip xs ys)"

text \<open>The body of the \<open>try\<close> block of \<open>authenticate\<close>.\<close>

definition authenticate_try :: "store \<Rightarrow> string \<Rightarrow> string \<Rightarrow> string \<Rightarrow> error + bool" where
  "authenticate_try st username password role =
     raising (read_file st USERS_FILE) (\<lambda>users.
       if df_empty users then Inr False
       else
         raising (getcol users ''username'') (\<lambda>u.
         raising (str_map strip u) (\<lambda>u1.
         raising (str_map lower u1) (\<lambda>u2.
         raising (getcol users ''password'') (\<lambda>p.
         raising (str_map strip (astype_str p)) (\<lambda>p1.
         raising (getcol users ''role'') (\<lambda>r.
         raising (str_map strip r) (\<lambda>r1.
         raising (str_map lower r1) (\<lambda>r2.
           let user = df_filter
                        (and_masks
                           (and_masks (eq_str u2 (lower (strip username)))
                                      (eq_str p1 (strip password)))
                           (eq_str r2 (lower (strip role))))
                        users
           in Inr (\<not> df_empty user))))))))))"

text \<open>
  \<open>authenticate\<close> returns its boolean and, when an exception was caught, the
  exception it reports with \<open>st.error\<close>.
\<close>

definition authenticate :: "store \<Rightarrow> string \<Rightarrow> string \<Rightarrow> string \<Rightarrow> bool \<times> error option" where
  "authenticate st username password role =
     (case authenticate_try st username password role of
        Inl e \<Rightarrow> (False, Some e)
      | Inr b \<Rightarrow> (b, None))"

section \<open>Course creation\<close>

text \<open>The session: \<open>st.session_state.auth\<close>.\<close>

record auth =
  logged_in :: bool
  auth_role :: "string option"
  auth_username :: "string option"

definition opt_cell :: "string option \<Rightarrow> cell" where
  "opt_cell x = (case x of None \<Rightarrow> NaN | Some s \<Rightarrow> StrV s)"

text \<open>
  The identifier of the next course: one on an empty table, else the largest
  \<open>course_id\<close>, converted to integers, plus one.
\<close>

definition new_course_id :: "dataframe \<Rightarrow> error + int" where
  "new_course_id courses =
     (if \<not> df_empty courses
      then raising (getcol courses ''course_id'') (\<lambda>c.
           raising (astype_int c) (\<lambda>ids.
             case numbers (vals ids) of
               [] \<Rightarrow> Inl ValueError
             | n # ns \<Rightarrow> Inr (wrap64 (fold max ns n + 1))))
      else Inr 1)"

text \<open>An uploaded image is known by its name; its bytes go to a directory outside the tables.\<close>

definition img_path :: "int \<Rightarrow> string option \<Rightarrow> string" where
  "img_path new_id img =
     (case img of
        None \<Rightarrow> []
      | Some name \<Rightarrow> ''uploads/course_images/'' @ show_int new_id @ ''_'' @ name)"

definition new_course ::
  "auth \<Rightarrow> string \<Rightarrow> int \<Rightarrow> string \<Rightarrow> string \<Rightarrow> string \<Rightarrow> string \<Rightarrow> string option \<Rightarrow> string \<Rightarrow> dataframe" where
  "new_course a now new_id name desc schedule status img yt_link =
     DataFrame [(''course_id'', IntV new_id), (''course_name'', StrV name),
                (''description'', StrV desc), (''instructor'', opt_cell (auth_username a)),
                (''schedule'', StrV schedule), (''enrollment_status'', StrV status),
                (''youtube_link'', StrV yt_link), (''image_path'', StrV (img_path new_id img)),
                (''created_at'', StrV now)]"

text \<open>
  \<open>save_course\<close> returns the files it leaves and the exception it reports, if any.
\<close>

definition save_course ::
  "auth \<Rightarrow> string \<Rightarrow> store \<Rightarrow> string \<Rightarrow> string \<Rightarrow> string \<Rightarrow> string \<Rightarrow> string option \<Rightarrow> string
     \<Rightarrow> store \<times> error option" where
  "save_course a now st name desc schedule status img yt_link =
     (case raising (read_file st COURSES_FILE) new_course_id of
        Inl e \<Rightarrow> (st, Some e)
      | Inr new_id \<Rightarrow>
          (append_file COURSES_FILE
             (new_course a now new_id name desc schedule status img yt_link) False st, None))"

section \<open>User creation\<close>

text \<open>
  The "Create User" button of \<open>admin_dashboard\<close>. The page reads the Users table and
  shows three of its columns outside any \<open>try\<close>: an exception there, or in the
  checks, ends the run. A failed check shows its message and writes nothing.
\<close>

datatype outcome = Crashed error | Rejected string | Created

definition new_user_id :: "dataframe \<Rightarrow> error + cell" where
  "new_user_id users =
     (if \<not> df_empty users then raising (getcol users ''user_id'') max_plus_1 else Inr (IntV 1))"

definition new_user :: "string \<Rightarrow> cell \<Rightarrow> string \<Rightarrow> string \<Rightarrow> string \<Rightarrow> dataframe" where
  "new_user now uid new_username new_password new_role =
     DataFrame [(''user_id'', uid), (''username'', StrV (strip new_username)),
                (''password'', StrV new_password), (''role'', StrV (lower new_role)),
                (''created_at'', StrV now)]"

definition create_user_try ::
  "string \<Rightarrow> store \<Rightarrow> string \<Rightarrow> string \<Rightarrow> string \<Rightarrow> string \<Rightarrow> error + store \<times> outcome" where
  "create_user_try now st new_username new_role new_password confirm_password =
     raising (read_file st USERS_FILE) (\<lambda>users.
     raising (getcol users ''username'') (\<lambda>u.
     raising (getcol users ''role'') (\<lambda>_.
     raising (getcol users ''created_at'') (\<lambda>_.
       if \<not> (new_username \<noteq> [] \<and> new_password \<noteq> [] \<and> confirm_password \<noteq> [])
       then Inr (st, Rejected ''Please fill all required fields (*)'')
       else if new_password \<noteq> confirm_password
       then Inr (st, Rejected ''Passwords do not match!'')
       else raising (str_map lower u) (\<lambda>names.
         if list_ex id (eq_str names (lower new_username))
         then Inr (st, Rejected ''Username already exists!'')
         else raising (new_user_id users) (\<lambda>uid.
           Inr (append_file USERS_FILE
                  (new_user now uid new_username new_password new_role) False st,
                Created)))))))"

definition create_user ::
  "string \<Rightarrow> store \<Rightarrow> string \<Rightarrow> string \<Rightarrow> string \<Rightarrow> string \<Rightarrow> store \<times> outcome" where
  "create_user now st new_username new_role new_password confirm_password =
     (case create_user_try now st new_username new_role new_password confirm_password of
        Inl e \<Rightarrow> (st, Crashed e)
      | Inr r \<Rightarrow> r)"

section \<open>Well-formed frames\<close>

text \<open>Every column of a frame has one value for each row.\<close>

definition wf_df :: "dataframe \<Rightarrow> bool" where
  "wf_df df = list_all (\<lambda>(n, s). length (vals s) = nrows df) (cols df)"

section \<open>Auxiliary facts\<close>

lemma digit_char_isdigit: "d < 10 \<Longrightarrow> isdigit (digit_char d)"
proof -
  assume "d < 10"
  then have "d \<in> {0,1,2,3,4,5,6,7,8,9}" by auto
  then show ?thesis
    by (auto simp: isdigit_def digit_char_def digits_def)
qed

lemma digit_val_digit_char: "d < 10 \<Longrightarrow> digit_val (digit_char d) = d"
proof -
  assume "d < 10"
  then have "d \<in> {0,1,2,3,4,5,6,7,8,9}" by auto
  then show ?thesis
    by (auto simp: digit_val_def digit_char_def digits_def upt_rec)
qed

lemma show_nat_nonempty: "show_nat n \<noteq> []"
  by (subst show_nat.simps) simp

lemma show_nat_digits: "list_all isdigit (show_nat n)"
proof (induction n rule: show_nat.induct)
  case (1 n)
  show ?case
    by (subst show_nat.simps) (use 1 in \<open>auto simp: digit_char_isdigit\<close>)
qed

lemma nat_of_digits_snoc: "nat_of_digits (ds @ [c]) = 10 * nat_of_digits ds + digit_val c"
  by (simp add: nat_of_digits_def)

lemma nat_of_digits_show_nat: "nat_of_digits (show_nat n) = n"
proof (induction n rule: show_nat.induct)
  case (1 n)
  show ?case
  proof (cases "n < 10")
    case True
    then show ?thesis
      by (subst show_nat.simps) (simp add: nat_of_digits_def digit_val_digit_char)
  next
    case False
    with 1 show ?thesis
      by (subst show_nat.simps) (simp add: nat_of_digits_snoc digit_val_digit_char)
  qed
qed

lemma parse_digits_show_nat: "parse_digits (show_nat n) = Some n"
  by (simp add: parse_digits_def show_nat_nonempty show_nat_digits nat_of_digits_show_nat)

lemma hd_show_nat_digit: "isdigit (hd (show_nat n))"
  using show_nat_digits [of n] show_nat_nonempty [of n]
  by (cases "show_nat n") auto

lemma parse_int_show_int: "parse_int (show_int i) = Some i"
proof (cases "i < 0")
  case True
  then show ?thesis
    by (simp add: show_int_def parse_int_def parse_digits_show_nat)
next
  case False
  obtain c cs where s: "show_nat (nat i) = c # cs"
    using show_nat_nonempty [of "nat i"] by (cases "show_nat (nat i)") auto
  have "isdigit c" using hd_show_nat_digit [of "nat i"] s by simp
  then have "c \<noteq> CHR ''-''" "c \<noteq> CHR ''+''"
    by (auto simp: isdigit_def digits_def)
  with False s show ?thesis
    using parse_digits_show_nat [of "nat i"]
    by (simp add: show_int_def parse_int_def)
qed

lemma is_na_not_int: "is_na f \<Longrightarrow> parse_int f = None"
  by (auto simp: is_na_def na_values_def parse_int_def parse_digits_def isdigit_def digits_def)

lemma is_na_not_number: "is_na f \<Longrightarrow> parse_number f = None"
  by (auto simp: is_na_def na_values_def parse_number_def parse_int_def parse_digits_def
        isdigit_def digits_def)

lemma parse_digits_dot: "parse_digits (ds @ ''.0'') = None"
  by (simp add: parse_digits_def isdigit_def digits_def)

lemma parse_int_dot: "parse_int (s @ ''.0'') = None"
proof (cases s)
  case Nil
  then show ?thesis
    by (simp add: parse_int_def parse_digits_def isdigit_def digits_def)
next
  case (Cons c cs)
  then show ?thesis
    using parse_digits_dot [of cs] parse_digits_dot [of "c # cs"]
    by (simp add: parse_int_def)
qed

lemma parse_number_int: "parse_int s = Some n \<Longrightarrow> parse_number s = Some n"
  by (simp add: parse_number_def)

lemma parse_number_dot: "parse_number (s @ ''.0'') = parse_int s"
  by (simp add: parse_number_def parse_int_dot)

lemma show_int_not_na: "\<not> is_na (show_int i)"
  using is_na_not_int [of "show_int i"] by (auto simp: parse_int_show_int)

lemma show_float_not_na: "\<not> is_na (show_int i @ ''.0'')"
  using is_na_not_number [of "show_int i @ ''.0''"]
  by (auto simp: parse_number_dot parse_int_show_int)

lemma is_na_empty: "is_na []"
  by (simp add: is_na_def na_values_def)

lemma int_cell_show: "int_cell (show_int i) = IntV i"
  by (simp add: int_cell_def parse_int_show_int)

lemma float_cell_show: "float_cell (show_int i @ ''.0'') = FloatV i"
  by (simp add: float_cell_def show_float_not_na parse_number_dot parse_int_show_int)

lemma float_cell_empty: "float_cell [] = NaN"
  by (simp add: float_cell_def is_na_empty)

lemma str_cell_empty: "str_cell [] = NaN"
  by (simp add: str_cell_def is_na_empty)

lemma is_int_literal_show: "in_int64 i \<Longrightarrow> is_int_literal (show_int i)"
  by (simp add: is_int_literal_def parse_int_show_int)

lemma not_int_literal_empty: "\<not> is_int_literal []"
  by (simp add: is_int_literal_def parse_int_def)

lemma not_int_literal_dot: "\<not> is_int_literal (s @ ''.0'')"
  by (simp add: is_int_literal_def parse_int_dot)

lemma not_number_na: "is_na f \<Longrightarrow> \<not> is_number f"
  by (simp add: is_number_def is_na_not_number)

lemma show_int_nonempty: "show_int i \<noteq> []"
  by (simp add: show_int_def show_nat_nonempty)

lemma hd_show_int_minus: "(hd (show_int i) = CHR ''-'') = (i < 0)"
proof (cases "i < 0")
  case True
  then show ?thesis by (simp add: show_int_def)
next
  case False
  have "isdigit (hd (show_nat (nat i)))" by (rule hd_show_nat_digit)
  then have "hd (show_nat (nat i)) \<noteq> CHR ''-''" by (auto simp: isdigit_def digits_def)
  with False show ?thesis by (simp add: show_int_def)
qed

lemma is_number_show_float: "exact_float i \<Longrightarrow> is_number (show_int i @ ''.0'')"
proof -
  assume e: "exact_float i"
  have h: "hd (show_int i @ ''.0'') = hd (show_int i)" using show_int_nonempty by simp
  have "i = 0 \<Longrightarrow> hd (show_int i @ ''.0'') \<noteq> CHR ''-''"
    using hd_show_int_minus [of i] h by simp
  with e show ?thesis
    by (simp add: is_number_def parse_number_dot parse_int_show_int)
qed

text \<open>Rendering the cells of an inferred column and inferring again gives the column back.\<close>

lemma render_int_cell_literal: "is_int_literal f \<Longrightarrow> is_int_literal (render (int_cell f))"
  by (auto simp: is_int_literal_def int_cell_def render_def parse_int_show_int split: option.splits)

lemma int_cell_render: "is_int_literal f \<Longrightarrow> int_cell (render (int_cell f)) = int_cell f"
  by (auto simp: is_int_literal_def int_cell_def render_def parse_int_show_int split: option.splits)

lemma infer_int_stable:
  assumes "fs \<noteq> []" "list_all is_int_literal fs"
  shows "infer_column (map render (map int_cell fs)) = \<lparr>dtype = Int64, vals = map int_cell fs\<rparr>"
proof -
  have a: "list_all is_int_literal (map render (map int_cell fs))"
    using assms(2) by (induction fs) (simp_all add: render_int_cell_literal)
  have b: "map int_cell (map render (map int_cell fs)) = map int_cell fs"
    using assms(2) by (induction fs) (simp_all add: int_cell_render)
  show ?thesis
    using assms(1) a b by (simp add: infer_column_def)
qed

lemma render_float_cell:
  assumes "is_na f \<or> is_number f"
  shows "render (float_cell f) = [] \<and> float_cell f = NaN
   \<or> (\<exists>n. float_cell f = FloatV n \<and> exact_float n \<and> render (float_cell f) = show_int n @ ''.0'')"
proof (cases "is_na f")
  case True
  then show ?thesis by (simp add: float_cell_def render_def)
next
  case False
  with assms have "is_number f" by simp
  then obtain n where "parse_number f = Some n" "exact_float n"
    by (auto simp: is_number_def split: option.splits)
  with False show ?thesis by (simp add: float_cell_def render_def)
qed

lemma infer_float_stable:
  assumes "fs \<noteq> []" "list_all (\<lambda>f. is_na f \<or> is_number f) fs"
  shows "infer_column (map render (map float_cell fs)) = \<lparr>dtype = Float64, vals = map float_cell fs\<rparr>"
proof -
  have a: "\<not> list_all is_int_literal (map render (map float_cell fs))"
  proof -
    obtain f fs' where "fs = f # fs'" using assms(1) by (cases fs) auto
    moreover from this assms(2) have "is_na f \<or> is_number f" by simp
    ultimately show ?thesis
      using render_float_cell [of f]
      by (auto simp: not_int_literal_empty not_int_literal_dot)
  qed
  have b: "list_all (\<lambda>f. is_na f \<or> is_number f) (map render (map float_cell fs))"
    using assms(2)
  proof (induction fs)
    case Nil
    then show ?case by simp
  next
    case (Cons f fs)
    then have "is_na f \<or> is_number f" by simp
    from render_float_cell [OF this] Cons show ?case
      by (auto simp: is_na_empty is_number_show_float)
  qed
  have c: "map float_cell (map render (map float_cell fs)) = map float_cell fs"
    using assms(2)
  proof (induction fs)
    case Nil
    then show ?case by simp
  next
    case (Cons f fs)
    then have "is_na f \<or> is_number f" by simp
    from render_float_cell [OF this] Cons show ?case
      by (auto simp: float_cell_empty float_cell_show)
  qed
  show ?thesis
    using assms(1) a b c by (simp add: infer_column_def)
qed

lemma render_str_cell: "render (str_cell f) = (if is_na f then [] else f)"
  by (simp add: str_cell_def render_def)

lemma str_cell_render: "str_cell (render (str_cell f)) = str_cell f"
  by (simp add: str_cell_def render_def is_na_empty)

lemma infer_str_stable:
  assumes "\<not> list_all is_int_literal fs" "\<not> list_all (\<lambda>f. is_na f \<or> is_number f) fs"
  shows "infer_column (map render (map str_cell fs)) = \<lparr>dtype = Object, vals = map str_cell fs\<rparr>"
proof -
  from assms(2) obtain f where f: "f \<in> set fs" "\<not> is_na f" "\<not> is_number f"
    by (auto simp: list_all_iff)
  then have r: "render (str_cell f) = f" by (simp add: render_str_cell)
  have m: "f \<in> set (map render (map str_cell fs))"
    using f(1) r by (metis image_eqI list.set_map)
  from assms(1) obtain g where g: "g \<in> set fs" "\<not> is_int_literal g"
    by (auto simp: list_all_iff)
  have "\<not> is_int_literal (render (str_cell g))"
    using g(2) by (simp add: render_str_cell not_int_literal_empty)
  moreover have "render (str_cell g) \<in> set (map render (map str_cell fs))"
    using g(1) by simp
  ultimately have a: "\<not> list_all is_int_literal (map render (map str_cell fs))"
    unfolding list_all_iff by blast
  have b: "\<not> list_all (\<lambda>f. is_na f \<or> is_number f) (map render (map str_cell fs))"
    using m f(2,3) unfolding list_all_iff by blast
  have c: "map str_cell (map render (map str_cell fs)) = map str_cell fs"
    by (simp add: str_cell_render)
  have "fs \<noteq> []" using f(1) by auto
  then show ?thesis
    using a b c by (simp add: infer_column_def)
qed

lemma infer_column_stable:
  "infer_column (map render (vals (infer_column fs))) = infer_column fs"
proof (cases "fs = []")
  case True
  then show ?thesis by (simp add: infer_column_def)
next
  case ne: False
  show ?thesis
  proof (cases "list_all is_int_literal fs")
    case True
    with ne show ?thesis
      using infer_int_stable [of fs] by (simp add: infer_column_def)
  next
    case ni: False
    show ?thesis
    proof (cases "list_all (\<lambda>f. is_na f \<or> is_number f) fs")
      case True
      with ne ni show ?thesis
        using infer_float_stable [of fs] by (simp add: infer_column_def)
    next
      case False
      with ne ni show ?thesis
        using infer_str_stable [of fs] by (simp add: infer_column_def)
    qed
  qed
qed

lemma length_infer_column: "length (vals (infer_column fs)) = length fs"
  by (simp add: infer_column_def)

lemma wf_df_read_csv: "read_csv f = Inr df \<Longrightarrow> wf_df df"
  by (auto simp: read_csv_def Let_def wf_df_def list_all_iff length_infer_column
           split: list.splits if_splits)

lemma nrows_set_none: "nrows (set_none df c) = nrows df"
  by (simp add: set_none_def Let_def)

lemma wf_df_set_none: "wf_df df \<Longrightarrow> wf_df (set_none df c)"
  by (auto simp: set_none_def wf_df_def list_all_iff Let_def split: if_splits)

lemma nrows_foldl_set_none: "nrows (foldl set_none df cs) = nrows df"
  by (induction cs arbitrary: df) (simp_all add: nrows_set_none)

lemma wf_df_foldl_set_none: "wf_df df \<Longrightarrow> wf_df (foldl set_none df cs)"
  by (induction cs arbitrary: df) (simp_all add: wf_df_set_none)

lemma df_columns_set_none:
  "set (df_columns (set_none df c)) = insert c (set (df_columns df))"
  by (auto simp: set_none_def df_columns_def Let_def split: if_splits) force+

lemma df_columns_foldl_set_none:
  "set (df_columns (foldl set_none df cs)) = set (df_columns df) \<union> set cs"
  by (induction cs arbitrary: df) (auto simp: df_columns_set_none)

lemma set_none_fresh:
  "c \<notin> set (df_columns df) \<Longrightarrow>
   cols (set_none df c) = cols df @ [(c, \<lparr>dtype = Object, vals = replicate (nrows df) NaN\<rparr>)]"
  by (simp add: set_none_def Let_def)

lemma cols_foldl_set_none:
  "distinct cs \<Longrightarrow> set cs \<inter> set (df_columns df) = {} \<Longrightarrow>
   cols (foldl set_none df cs)
     = cols df @ map (\<lambda>c. (c, \<lparr>dtype = Object, vals = replicate (nrows df) NaN\<rparr>)) cs"
proof (induction cs arbitrary: df)
  case Nil
  then show ?case by simp
next
  case (Cons c cs)
  have fresh: "c \<notin> set (df_columns df)" using Cons.prems by auto
  have d: "set cs \<inter> set (df_columns (set_none df c)) = {}"
    using Cons.prems by (auto simp: df_columns_set_none)
  have "distinct cs" using Cons.prems by simp
  from Cons.IH [OF this d] show ?case
    by (simp add: set_none_fresh [OF fresh] nrows_set_none)
qed

lemma column_of_records:
  assumes "j < length cs" "length (vals (snd (cs ! j))) = k"
  shows "map (\<lambda>r. field r j) (map (\<lambda>i. map (\<lambda>(n, s). render (vals s ! i)) cs) [0 ..< k])
         = map render (vals (snd (cs ! j)))"
proof -
  have "map (\<lambda>r. field r j) (map (\<lambda>i. map (\<lambda>(n, s). render (vals s ! i)) cs) [0 ..< k])
        = map (\<lambda>i. render (vals (snd (cs ! j)) ! i)) [0 ..< k]"
    using assms(1) by (auto simp: field_def split: prod.splits)
  also have "\<dots> = map render (map (\<lambda>i. vals (snd (cs ! j)) ! i) [0 ..< k])"
    by simp
  also have "map (\<lambda>i. vals (snd (cs ! j)) ! i) [0 ..< k] = vals (snd (cs ! j))"
    using assms(2) map_nth [of "vals (snd (cs ! j))"] by simp
  finally show ?thesis .
qed

lemma length_df_records: "length (df_records df) = nrows df"
  by (simp add: df_records_def)

lemma read_to_csv:
  assumes "wf_df df"
  shows "read_csv (to_csv df)
         = Inr \<lparr>cols = map (\<lambda>(n, s). (n, infer_column (map render (vals s)))) (cols df),
                nrows = nrows df\<rparr>"
proof -
  have len: "length (vals (snd (cols df ! j))) = nrows df" if "j < length (cols df)" for j
  proof -
    obtain n s where ns: "cols df ! j = (n, s)" by (cases "(cols df) ! j") auto
    have "(n, s) \<in> set (cols df)" using that ns by (metis nth_mem)
    then have "length (vals s) = nrows df"
      using assms by (auto simp: wf_df_def list_all_iff)
    then show ?thesis by (simp add: ns)
  qed
  have no_long: "\<not> list_ex (\<lambda>r. length (df_columns df) < length r) (df_records df)"
    by (auto simp: list_ex_iff df_records_def df_columns_def)
  have k: "leading_cols (df_columns df) (df_records df) = 0"
    by (auto simp: leading_cols_def df_records_def df_columns_def upt_conv_Cons split: list.splits)
  have "map (\<lambda>j. (df_columns df ! j, infer_column (map (\<lambda>r. field r j) (df_records df))))
            [0 ..< length (df_columns df)]
        = map (\<lambda>(n, s). (n, infer_column (map render (vals s)))) (cols df)"
  proof (rule nth_equalityI)
    show "length (map (\<lambda>j. (df_columns df ! j, infer_column (map (\<lambda>r. field r j) (df_records df))))
            [0 ..< length (df_columns df)])
          = length (map (\<lambda>(n, s). (n, infer_column (map render (vals s)))) (cols df))"
      by (simp add: df_columns_def)
  next
    fix j
    assume "j < length (map (\<lambda>j. (df_columns df ! j, infer_column (map (\<lambda>r. field r j) (df_records df))))
            [0 ..< length (df_columns df)])"
    then have j: "j < length (cols df)" by (simp add: df_columns_def)
    have "map (\<lambda>r. field r j) (df_records df) = map render (vals (snd (cols df ! j)))"
      unfolding df_records_def using column_of_records [OF j len [OF j]] .
    then show "map (\<lambda>j. (df_columns df ! j, infer_column (map (\<lambda>r. field r j) (df_records df))))
            [0 ..< length (df_columns df)] ! j
          = map (\<lambda>(n, s). (n, infer_column (map render (vals s)))) (cols df) ! j"
      using j by (simp add: df_columns_def split: prod.splits)
  qed
  then show ?thesis
    using no_long k by (simp add: read_csv_def to_csv_def length_df_records)
qed

lemma df_columns_read_to_csv:
  "wf_df df \<Longrightarrow> read_csv (to_csv df) = Inr df' \<Longrightarrow> df_columns df' = df_columns df"
  by (auto simp: read_to_csv df_columns_def split: prod.splits)

lemma read_csv_header_only:
  "read_csv [columns]
   = Inr \<lparr>cols = map (\<lambda>c. (c, \<lparr>dtype = Object, vals = []\<rparr>)) columns, nrows = 0\<rparr>"
proof -
  have "map (\<lambda>j. (columns ! j, infer_column [])) [0 ..< length columns]
        = map (\<lambda>c. (c, infer_column [])) (map (\<lambda>j. columns ! j) [0 ..< length columns])"
    by simp
  also have "\<dots> = map (\<lambda>c. (c, infer_column [])) columns"
    by (simp only: map_nth)
  finally show ?thesis
    by (simp add: read_csv_def leading_cols_def infer_column_def)
qed

lemma missing_cols_header_only:
  "read_csv [columns] = Inr df \<Longrightarrow> missing_cols columns df = []"
  by (auto simp: read_csv_header_only missing_cols_def df_columns_def filter_empty_conv image_iff)

lemma missing_cols_after_write:
  assumes "read_csv f = Inr df"
      and "read_csv (to_csv (foldl set_none df (missing_cols columns df))) = Inr df'"
  shows "missing_cols columns df' = []"
proof -
  have wf: "wf_df (foldl set_none df (missing_cols columns df))"
    using assms(1) by (simp add: wf_df_read_csv wf_df_foldl_set_none)
  have "df_columns df' = df_columns (foldl set_none df (missing_cols columns df))"
    using df_columns_read_to_csv [OF wf assms(2)] .
  then have "set (df_columns df') = set (df_columns df) \<union> set (missing_cols columns df)"
    by (simp add: df_columns_foldl_set_none)
  then show ?thesis
    by (auto simp: missing_cols_def filter_empty_conv)
qed

lemma read_after_write_ok:
  assumes "read_csv f = Inr df"
  shows "\<exists>df'. read_csv (to_csv (foldl set_none df cs)) = Inr df'"
  using assms by (simp add: read_to_csv wf_df_read_csv wf_df_foldl_set_none)

lemma ensure_file_second_run:
  assumes "ensure_file fp columns st = Inr st'"
  shows "ensure_file fp columns st' = Inr st'
         \<and> (\<exists>f df. st' fp = Some f \<and> read_csv f = Inr df \<and> missing_cols columns df = [])"
proof (cases "st fp")
  case None
  with assms have st': "st' = st(fp := Some [columns])"
    by (auto simp: ensure_file_def)
  obtain df where df: "read_csv [columns] = Inr df"
    by (simp add: read_csv_header_only)
  then have "missing_cols columns df = []" by (rule missing_cols_header_only)
  with df st' show ?thesis
    by (simp add: ensure_file_def raising_def)
next
  case (Some f)
  with assms obtain df where df: "read_csv f = Inr df"
    by (auto simp: ensure_file_def raising_def split: sum.splits)
  show ?thesis
  proof (cases "missing_cols columns df = []")
    case True
    with Some df assms have "st' = st" by (simp add: ensure_file_def raising_def)
    with Some df True show ?thesis by (simp add: ensure_file_def raising_def)
  next
    case False
    with Some df assms
    have st': "st' = st(fp := Some (to_csv (foldl set_none df (missing_cols columns df))))"
      by (simp add: ensure_file_def raising_def write_file_def)
    obtain df' where df': "read_csv (to_csv (foldl set_none df (missing_cols columns df))) = Inr df'"
      using read_after_write_ok [OF df] by blast
    have "missing_cols columns df' = []"
      using missing_cols_after_write [OF df df'] .
    with st' df' show ?thesis
      by (simp add: ensure_file_def raising_def)
  qed
qed

lemma ensure_file_other:
  "ensure_file fp columns st = Inr st' \<Longrightarrow> fp' \<noteq> fp \<Longrightarrow> st' fp' = st fp'"
  by (auto simp: ensure_file_def raising_def write_file_def split: option.splits sum.splits if_splits)

lemma ensure_file_local:
  assumes "st1 fp = st2 fp" "ensure_file fp columns st1 = Inr st1"
  shows "ensure_file fp columns st2 = Inr st2"
proof -
  have same: "st1(fp := x) = st1 \<Longrightarrow> st1 fp = x" for x
    by (metis fun_upd_same)
  show ?thesis
  proof (cases "st1 fp")
    case None
    with assms(2) have "st1 = st1(fp := Some [columns])" by (simp add: ensure_file_def)
    with None show ?thesis by (metis fun_upd_same option.distinct(1))
  next
    case (Some f)
    with assms(2) obtain df where df: "read_csv f = Inr df"
      by (auto simp: ensure_file_def raising_def split: sum.splits)
    show ?thesis
    proof (cases "missing_cols columns df = []")
      case True
      with Some df assms(1) show ?thesis by (simp add: ensure_file_def raising_def)
    next
      case False
      with Some df assms(2)
      have "st1(fp := Some (to_csv (foldl set_none df (missing_cols columns df)))) = st1"
        by (simp add: ensure_file_def raising_def write_file_def)
      from same [OF this] Some
      have eq: "to_csv (foldl set_none df (missing_cols columns df)) = f" by simp
      then have "st2(fp := Some (to_csv (foldl set_none df (missing_cols columns df)))) = st2"
        using assms(1) Some by auto
      with Some df False assms(1) show ?thesis
        by (simp add: ensure_file_def raising_def write_file_def)
    qed
  qed
qed

lemma ensure_all_other:
  "fp \<notin> fst ` set xs \<Longrightarrow> fst (ensure_all xs st) fp = st fp"
proof (induction xs arbitrary: st)
  case Nil
  then show ?case by simp
next
  case (Cons x xs)
  obtain fp' columns where x: "x = (fp', columns)" by (cases x)
  show ?case
  proof (cases "ensure_file fp' columns st")
    case (Inl e)
    with x show ?thesis by simp
  next
    case (Inr st')
    have "fst (ensure_all xs st') fp = st' fp" using Cons by simp
    moreover have "st' fp = st fp"
      using ensure_file_other [OF Inr] Cons.prems x by auto
    ultimately show ?thesis using x Inr by simp
  qed
qed

lemma ensure_all_second_run:
  "distinct (map fst xs) \<Longrightarrow> ensure_all xs (fst (ensure_all xs st)) = ensure_all xs st"
proof (induction xs arbitrary: st)
  case Nil
  then show ?case by simp
next
  case (Cons x xs)
  obtain fp columns where x: "x = (fp, columns)" by (cases x)
  show ?case
  proof (cases "ensure_file fp columns st")
    case (Inl e)
    with x show ?thesis by simp
  next
    case (Inr st')
    let ?st'' = "fst (ensure_all xs st')"
    have notin: "fp \<notin> fst ` set xs" using Cons.prems x by auto
    have same: "?st'' fp = st' fp" using ensure_all_other [OF notin] .
    have "ensure_file fp columns st' = Inr st'"
      using ensure_file_second_run [OF Inr] by simp
    then have again: "ensure_file fp columns ?st'' = Inr ?st''"
      using ensure_file_local [of st' fp ?st'' columns] same by simp
    have "ensure_all xs ?st'' = ensure_all xs st'"
      using Cons by simp
    with again x Inr show ?thesis by simp
  qed
qed

lemma distinct_REQUIRED_STRUCTURE: "distinct (map fst REQUIRED_STRUCTURE)"
  by (simp add: REQUIRED_STRUCTURE_def)

lemma read_csv_cols_inferred:
  "read_csv f = Inr df \<Longrightarrow> (n, s) \<in> set (cols df) \<Longrightarrow> \<exists>fs. s = infer_column fs"
  by (auto simp: read_csv_def Let_def split: list.splits if_splits)

lemma read_csv_cols_stable:
  assumes "read_csv f = Inr df"
  shows "map (\<lambda>(n, s). (n, infer_column (map render (vals s)))) (cols df) = cols df"
proof -
  have "(case x of (n, s) \<Rightarrow> (n, infer_column (map render (vals s)))) = x" if "x \<in> set (cols df)" for x
  proof -
    obtain n s where x: "x = (n, s)" by (cases x)
    with that assms obtain fs where "s = infer_column fs"
      using read_csv_cols_inferred by blast
    then show ?thesis by (simp add: x infer_column_stable)
  qed
  then show ?thesis by (simp add: map_idI)
qed

lemma vals_infer_missing: "vals (infer_column (replicate k [])) = replicate k NaN"
proof (cases k)
  case 0
  then show ?thesis by (simp add: infer_column_def)
next
  case (Suc m)
  then show ?thesis
    by (simp add: infer_column_def not_int_literal_empty is_na_empty float_cell_empty
                  list_all_iff)
qed

lemma render_NaN: "render NaN = []"
  by (simp add: render_def)

lemma distinct_required_columns:
  "(fp, columns) \<in> set REQUIRED_STRUCTURE \<Longrightarrow> distinct columns"
  by (auto simp: REQUIRED_STRUCTURE_def)

lemma missing_cols_fresh: "set (missing_cols columns df) \<inter> set (df_columns df) = {}"
  by (auto simp: missing_cols_def)

lemma read_migrated:
  assumes df: "read_csv f = Inr df" and dc: "distinct columns"
  shows "read_csv (to_csv (foldl set_none df (missing_cols columns df)))
         = Inr \<lparr>cols = cols df @ map (\<lambda>c. (c, infer_column (replicate (nrows df) [])))
                                       (missing_cols columns df),
                nrows = nrows df\<rparr>"
proof -
  let ?ms = "missing_cols columns df"
  have wf: "wf_df (foldl set_none df ?ms)"
    using df by (simp add: wf_df_read_csv wf_df_foldl_set_none)
  have dm: "distinct ?ms" using dc by (simp add: missing_cols_def)
  have c: "cols (foldl set_none df ?ms)
           = cols df @ map (\<lambda>c. (c, \<lparr>dtype = Object, vals = replicate (nrows df) NaN\<rparr>)) ?ms"
    using cols_foldl_set_none [OF dm missing_cols_fresh] .
  show ?thesis
    by (simp add: read_to_csv [OF wf] c nrows_foldl_set_none read_csv_cols_stable [OF df]
                  render_NaN comp_def)
qed

lemma map_of_appended:
  assumes "c \<in> set cs" "c \<notin> fst ` set xs"
  shows "map_of (xs @ map (\<lambda>c. (c, g c)) cs) c = Some (g c)"
proof -
  have "map_of xs c = None" using assms(2) by (simp add: map_of_eq_None_iff)
  moreover have "map_of (map (\<lambda>c. (c, g c)) cs) c = Some (g c)"
    using assms(1) by (induction cs) auto
  ultimately show ?thesis by (simp add: map_add_def)
qed

section \<open>Schema migration\<close>


text \<open>
  C6. The migration is idempotent: run on the files it has left, the loop over
  \<open>REQUIRED_STRUCTURE\<close> leaves every file as it is and ends as the first run did;
  and after a successful turn for one table, a second turn reads the file, finds
  no missing column and rewrites nothing.
\<close>

theorem migration_idempotent:
  "ensure_all REQUIRED_STRUCTURE (fst (ensure_all REQUIRED_STRUCTURE st))
     = ensure_all REQUIRED_STRUCTURE st
   \<and> (ensure_file fp columns st = Inr st' \<longrightarrow>
        ensure_file fp columns st' = Inr st'
      \<and> (\<exists>f df. st' fp = Some f \<and> read_csv f = Inr df \<and> missing_cols columns df = []))"
  using ensure_all_second_run [OF distinct_REQUIRED_STRUCTURE] ensure_file_second_run
  by blast

theorem migration_idempotent_witness:
  "ensure_all REQUIRED_STRUCTURE
     (fst (ensure_all REQUIRED_STRUCTURE
        ((\<lambda>_. None)(USERS_FILE :=
           Some [[''user_id'', ''username'', ''password''], [''1'', ''admin'', ''admin123'']]))))
   = ensure_all REQUIRED_STRUCTURE
        ((\<lambda>_. None)(USERS_FILE :=
           Some [[''user_id'', ''username'', ''password''], [''1'', ''admin'', ''admin123'']]))
   \<and> (case ensure_file USERS_FILE [''user_id'', ''username'', ''password'', ''role'', ''created_at'']
             ((\<lambda>_. None)(USERS_FILE :=
                Some [[''user_id'', ''username'', ''password''], [''1'', ''admin'', ''admin123'']]))
       of Inl e \<Rightarrow> False
        | Inr st' \<Rightarrow>
            st' USERS_FILE = Some [[''user_id'', ''username'', ''password'', ''role'', ''created_at''],
                                   [''1'', ''admin'', ''admin123'', [], []]]
          \<and> ensure_file USERS_FILE [''user_id'', ''username'', ''password'', ''role'', ''created_at'']
               st' = Inr st')"
proof -
  let ?columns = "[''user_id'', ''username'', ''password'', ''role'', ''created_at'']"
  let ?f = "[[''user_id'', ''username'', ''password''], [''1'', ''admin'', ''admin123'']]"
  let ?st = "(\<lambda>_. None)(USERS_FILE := Some ?f)"
  let ?df = "\<lparr>cols = [(''user_id'', \<lparr>dtype = Int64, vals = [IntV 1]\<rparr>),
                       (''username'', \<lparr>dtype = Object, vals = [StrV ''admin'']\<rparr>),
                       (''password'', \<lparr>dtype = Object, vals = [StrV ''admin123'']\<rparr>)],
              nrows = 1\<rparr>"
  let ?st' = "write_file USERS_FILE (foldl set_none ?df (missing_cols ?columns ?df)) ?st"
  have r: "read_csv ?f = Inr ?df" by code_simp
  have m: "missing_cols ?columns ?df = [''role'', ''created_at'']" by code_simp
  have e: "ensure_file USERS_FILE ?columns ?st = Inr ?st'"
    using r m by (simp add: ensure_file_def raising_def)
  have w: "to_csv (foldl set_none ?df [''role'', ''created_at''])
           = [[''user_id'', ''username'', ''password'', ''role'', ''created_at''],
              [''1'', ''admin'', ''admin123'', [], []]]"
    by code_simp
  have c: "?st' USERS_FILE = Some [[''user_id'', ''username'', ''password'', ''role'', ''created_at''],
                                   [''1'', ''admin'', ''admin123'', [], []]]"
    by (simp only: m write_file_def w) simp
  from migration_idempotent [of ?st USERS_FILE ?columns ?st'] e
  have a: "ensure_all REQUIRED_STRUCTURE (fst (ensure_all REQUIRED_STRUCTURE ?st))
             = ensure_all REQUIRED_STRUCTURE ?st"
    and b: "ensure_file USERS_FILE ?columns ?st' = Inr ?st'"
    by blast+
  show ?thesis
    using a b c by (simp only: e sum.case)
qed

section \<open>The scenario of the first run\<close>

text \<open>
  C1. From an empty store, \<open>initialize_system\<close> leaves a Users table of one record,
  the administrator, and \<open>authenticate\<close> accepts \<open>admin\<close>/\<open>admin123\<close> for the role
  \<open>Admin\<close>. A teacher then saves the course "Intro" (schedule "Mon 10-11", status
  "Open", no image, the link left blank): the Courses table has one record, whose
  \<open>course_id\<close> is 1, and a second course gets \<open>course_id\<close> 2. But the fields of the
  record are written in the order of the dictionary of \<open>save_course\<close>, not of the
  header: the column \<open>enrollment_status\<close> receives the link (here missing), and the
  status "Open" lands under \<open>created_at\<close>.
\<close>

theorem scenario_first_run:
  "(let now = ''2024-05-01 10:00:00'';
        st1 = fst (initialize_system now (\<lambda>_. None));
        teacher = \<lparr>logged_in = True, auth_role = Some ''teacher'', auth_username = Some ''tina''\<rparr>;
        st2 = fst (save_course teacher now st1 ''Intro'' ''Basics'' ''Mon 10-11'' ''Open'' None []);
        st3 = fst (save_course teacher now st2 ''Second'' ''More'' ''Tue 9-10'' ''Open'' None [])
    in st1 USERS_FILE = Some [[''user_id'', ''username'', ''password'', ''role'', ''created_at''],
                              [''1'', ''admin'', ''admin123'', ''admin'', now]]
     \<and> authenticate st1 ''admin'' ''admin123'' ''Admin'' = (True, None)
     \<and> st2 COURSES_FILE =
           Some [[''course_id'', ''course_name'', ''description'', ''instructor'', ''schedule'',
                  ''created_at'', ''enrollment_status'', ''image_path'', ''youtube_link''],
                 [''1'', ''Intro'', ''Basics'', ''tina'', ''Mon 10-11'', ''Open'', [], [], now]]
     \<and> raising (read_file st2 COURSES_FILE) (\<lambda>df. getcol df ''course_id'')
           = Inr \<lparr>dtype = Int64, vals = [IntV 1]\<rparr>
     \<and> raising (read_file st2 COURSES_FILE) (\<lambda>df. getcol df ''enrollment_status'')
           = Inr \<lparr>dtype = Float64, vals = [NaN]\<rparr>
     \<and> raising (read_file st2 COURSES_FILE) (\<lambda>df. getcol df ''created_at'')
           = Inr \<lparr>dtype = Object, vals = [StrV ''Open'']\<rparr>
     \<and> raising (read_file st3 COURSES_FILE) (\<lambda>df. getcol df ''course_id'')
           = Inr \<lparr>dtype = Int64, vals = [IntV 1, IntV 2]\<rparr>)"
  by code_simp

section \<open>Primary keys\<close>

text \<open>
  C3. A new record takes a key above every key of its table, and keys stay unique:
  \<open>save_course\<close> and the "Create User" form take the largest key plus one, but the
  default administrator always gets \<open>user_id\<close> 1. On a Users table whose only
  record is the teacher \<open>bob\<close> with \<open>user_id\<close> 1, \<open>initialize_system\<close> finds no
  administrator and adds one under the key 1 again: the column \<open>user_id\<close> then holds
  1 twice, while the form, on the same table, would have taken 2.
\<close>

theorem default_admin_reuses_key:
  "(let now = ''2024-05-01 10:00:00'';
        header = [''user_id'', ''username'', ''password'', ''role'', ''created_at''];
        bob = [''1'', ''bob'', ''pw'', ''teacher'', ''2024-04-30 09:00:00''];
        st = (\<lambda>_. None)(USERS_FILE := Some [header, bob]);
        st1 = fst (initialize_system now st)
    in snd (initialize_system now st) = None
     \<and> st1 USERS_FILE = Some [header, bob, [''1'', ''admin'', ''admin123'', ''admin'', now]]
     \<and> raising (read_file st1 USERS_FILE) (\<lambda>df. getcol df ''user_id'')
           = Inr \<lparr>dtype = Int64, vals = [IntV 1, IntV 1]\<rparr>
     \<and> raising (read_file st USERS_FILE) new_user_id = Inr (IntV 2))"
  by code_simp

section \<open>Failures of authentication\<close>

text \<open>
  C9. \<open>authenticate\<close> answers \<open>False\<close>, with nothing reported, on a Users table
  that is empty; when the table cannot be loaded (the file is absent, has no
  content or cannot be parsed) it answers \<open>False\<close> and reports the exception; and
  any other exception raised inside it ends the same way. It has no other outcome.
\<close>

theorem authenticate_fails_closed:
  "(read_file st USERS_FILE = Inr users \<and> df_empty users
      \<longrightarrow> authenticate st username password role = (False, None))
   \<and> (read_file st USERS_FILE = Inl e
      \<longrightarrow> authenticate st username password role = (False, Some e))
   \<and> (authenticate_try st username password role = Inl e
      \<longrightarrow> authenticate st username password role = (False, Some e))
   \<and> (fst (authenticate st username password role)
      \<longrightarrow> authenticate st username password role = (True, None))"
  by (auto simp: authenticate_def authenticate_try_def raising_def split: sum.splits)

theorem authenticate_fails_closed_witness:
  "(let header = [''user_id'', ''username'', ''password'', ''role'', ''created_at''] in
    authenticate ((\<lambda>_. None)(USERS_FILE := Some [header])) ''admin'' ''admin123'' ''admin''
      = (False, None)
  \<and> authenticate (\<lambda>_. None) ''admin'' ''admin123'' ''admin'' = (False, Some FileNotFoundError)
  \<and> authenticate ((\<lambda>_. None)(USERS_FILE := Some [])) ''admin'' ''admin123'' ''admin''
      = (False, Some EmptyDataError)
  \<and> authenticate ((\<lambda>_. None)(USERS_FILE := Some [header, [''1'', ''admin'', ''admin123'', ''admin'', ''2024-05-01 10:00:00''],
                                                [''2'', ''a'', ''b'', ''c'', ''d'', ''e'']]))
        ''admin'' ''admin123'' ''admin''
      = (False, Some ParserError)
  \<and> authenticate ((\<lambda>_. None)(USERS_FILE := Some [[''user_id''], [''1'']]))
        ''admin'' ''admin123'' ''admin''
      = (False, Some (KeyError ''username'')))"
proof -
  let ?h = "[''user_id'', ''username'', ''password'', ''role'', ''created_at'']"
  let ?r = "[''1'', ''admin'', ''admin123'', ''admin'', ''2024-05-01 10:00:00'']"
  let ?e = "\<lparr>cols = map (\<lambda>n. (n, \<lparr>dtype = Object, vals = []\<rparr>)) ?h, nrows = 0\<rparr>"
  have r1: "read_file ((\<lambda>_. None)(USERS_FILE := Some [?h])) USERS_FILE = Inr ?e"
    by code_simp
  have e1: "df_empty ?e" by (simp add: df_empty_def)
  have r2: "read_file (\<lambda>_. None) USERS_FILE = Inl FileNotFoundError"
    by (simp add: read_file_def)
  have r3: "read_file ((\<lambda>_. None)(USERS_FILE := Some [])) USERS_FILE = Inl EmptyDataError"
    by (simp add: read_file_def read_csv_def)
  have r4: "read_file ((\<lambda>_. None)(USERS_FILE := Some [?h, ?r, [''2'', ''a'', ''b'', ''c'', ''d'', ''e'']]))
              USERS_FILE = Inl ParserError"
    by code_simp
  have r5: "authenticate_try ((\<lambda>_. None)(USERS_FILE := Some [[''user_id''], [''1'']]))
              ''admin'' ''admin123'' ''admin'' = Inl (KeyError ''username'')"
    by code_simp
  from authenticate_fails_closed [where st = "(\<lambda>_. None)(USERS_FILE := Some [?h])" and users = ?e] r1 e1
  have a: "authenticate ((\<lambda>_. None)(USERS_FILE := Some [?h])) ''admin'' ''admin123'' ''admin''
             = (False, None)"
    by blast
  from authenticate_fails_closed [where st = "\<lambda>_. None" and e = FileNotFoundError] r2
  have b: "authenticate (\<lambda>_. None) ''admin'' ''admin123'' ''admin'' = (False, Some FileNotFoundError)"
    by blast
  from authenticate_fails_closed [where st = "(\<lambda>_. None)(USERS_FILE := Some [])" and e = EmptyDataError] r3
  have c: "authenticate ((\<lambda>_. None)(USERS_FILE := Some [])) ''admin'' ''admin123'' ''admin''
             = (False, Some EmptyDataError)"
    by blast
  from authenticate_fails_closed
         [where st = "(\<lambda>_. None)(USERS_FILE := Some [?h, ?r, [''2'', ''a'', ''b'', ''c'', ''d'', ''e'']])"
            and e = ParserError] r4
  have d: "authenticate ((\<lambda>_. None)(USERS_FILE := Some [?h, ?r, [''2'', ''a'', ''b'', ''c'', ''d'', ''e'']]))
             ''admin'' ''admin123'' ''admin'' = (False, Some ParserError)"
    by blast
  from authenticate_fails_closed
         [where st = "(\<lambda>_. None)(USERS_FILE := Some [[''user_id''], [''1'']])"
            and e = "KeyError ''username''" and username = "''admin''"
            and password = "''admin123''" and role = "''admin''"] r5
  have e: "authenticate ((\<lambda>_. None)(USERS_FILE := Some [[''user_id''], [''1'']]))
             ''admin'' ''admin123'' ''admin'' = (False, Some (KeyError ''username''))"
    by blast
  show ?thesis using a b c d e by (simp only: Let_def) 
qed

end
